theory Spec2Isabelle
  imports Main
begin

section \<open>Python values and the operations the scripts apply to them\<close>

text \<open>
  The streamed events are JSON-like Python values. A string is a list of characters with
  code points below 256; a dict is an association list with string keys, read with
  \<open>map_of\<close>. Floats and other objects do not occur in the model; the stream, an
  iterator in the source, is the finite list of the events it yields.
\<close>

datatype pyval =
    PNone
  | PBool bool
  | PInt int
  | PStr string
  | PList "pyval list"
  | PDict "(string \<times> pyval) list"

datatype pyerror = TypeError | AttributeError | KeyError

text \<open>\<open>needle in haystack\<close> on two strings: the needle occurs as a substring.\<close>

fun is_substring :: "string \<Rightarrow> string \<Rightarrow> bool" where
  "is_substring needle [] = (needle = [])"
| "is_substring needle (c # cs) =
     (take (length needle) (c # cs) = needle \<or> is_substring needle cs)"

text \<open>
  \<open>key in obj\<close> for a string key: key membership on a dict, substring test on a string,
  element test on a list, TypeError on a value that is not iterable.
\<close>

fun py_contains :: "string \<Rightarrow> pyval \<Rightarrow> pyerror + bool" where
  "py_contains k (PDict kvs) = Inr (map_of kvs k \<noteq> None)"
| "py_contains k (PStr s) = Inr (is_substring k s)"
| "py_contains k (PList xs) = Inr (PStr k \<in> set xs)"
| "py_contains k PNone = Inl TypeError"
| "py_contains k (PBool b) = Inl TypeError"
| "py_contains k (PInt i) = Inl TypeError"

text \<open>
  \<open>obj[key]\<close> for a string key: the value or KeyError on a dict; TypeError on a string
  or a list (their indices must be integers) and on a value that is not subscriptable.
\<close>

fun py_getitem :: "pyval \<Rightarrow> string \<Rightarrow> pyerror + pyval" where
  "py_getitem (PDict kvs) k = (case map_of kvs k of None \<Rightarrow> Inl KeyError | Some v \<Rightarrow> Inr v)"
| "py_getitem (PStr s) k = Inl TypeError"
| "py_getitem (PList xs) k = Inl TypeError"
| "py_getitem PNone k = Inl TypeError"
| "py_getitem (PBool b) k = Inl TypeError"
| "py_getitem (PInt i) k = Inl TypeError"

text \<open>
  \<open>for x in obj\<close>: the elements of a list, the one-character strings of a string, the
  keys of a dict; TypeError otherwise.
\<close>

fun py_iter :: "pyval \<Rightarrow> pyerror + pyval list" where
  "py_iter (PList xs) = Inr xs"
| "py_iter (PStr s) = Inr (map (\<lambda>c. PStr [c]) s)"
| "py_iter (PDict kvs) = Inr (map (\<lambda>kv. PStr (fst kv)) kvs)"
| "py_iter PNone = Inl TypeError"
| "py_iter (PBool b) = Inl TypeError"
| "py_iter (PInt i) = Inl TypeError"

text \<open>
  \<open>str.strip()\<close> removes leading and trailing whitespace; below 256 the characters
  Python counts as whitespace are 9 to 13, 28 to 32, 133 and 160.
\<close>

definition is_space :: "char \<Rightarrow> bool" where
  "is_space c = ((of_char c :: nat) \<in> {9, 10, 11, 12, 13, 28, 29, 30, 31, 32, 133, 160})"

definition strip :: "string \<Rightarrow> string" where
  "strip s = rev (dropWhile is_space (rev (dropWhile is_space s)))"

text \<open>\<open>obj.strip()\<close>: only a string has the method.\<close>

fun py_strip :: "pyval \<Rightarrow> pyerror + pyval" where
  "py_strip (PStr s) = Inr (PStr (strip s))"
| "py_strip PNone = Inl AttributeError"
| "py_strip (PBool b) = Inl AttributeError"
| "py_strip (PInt i) = Inl AttributeError"
| "py_strip (PList xs) = Inl AttributeError"
| "py_strip (PDict kvs) = Inl AttributeError"

text \<open>\<open>obj.get(key, default)\<close>: only a dict has the method.\<close>

fun py_get :: "pyval \<Rightarrow> string \<Rightarrow> pyval \<Rightarrow> pyerror + pyval" where
  "py_get (PDict kvs) k d = Inr (case map_of kvs k of None \<Rightarrow> d | Some v \<Rightarrow> v)"
| "py_get PNone k d = Inl AttributeError"
| "py_get (PBool b) k d = Inl AttributeError"
| "py_get (PInt i) k d = Inl AttributeError"
| "py_get (PStr s) k d = Inl AttributeError"
| "py_get (PList xs) k d = Inl AttributeError"

fun isinstance_dict :: "pyval \<Rightarrow> bool" where
  "isinstance_dict (PDict kvs) = True"
| "isinstance_dict PNone = False"
| "isinstance_dict (PBool b) = False"
| "isinstance_dict (PInt i) = False"
| "isinstance_dict (PStr s) = False"
| "isinstance_dict (PList xs) = False"

text \<open>Sequencing of two steps of which the first may raise.\<close>

definition and_then :: "pyerror + 'a \<Rightarrow> ('a \<Rightarrow> pyerror + 'b) \<Rightarrow> pyerror + 'b" where
  "and_then r f = (case r of Inl e \<Rightarrow> Inl e | Inr v \<Rightarrow> f v)"

section \<open>response_utils.py\<close>

type_synonym tagged = "string \<times> pyval"

text \<open>
  The body of the inner loop of \<open>process_stream_response\<close>: the tuple appended for one
  part, or the exception raised on the way.
\<close>

definition process_part :: "pyval \<Rightarrow> pyerror + tagged" where
  "process_part part =
     and_then (py_contains ''text'' part) (\<lambda>has_text.
       if has_text then
         and_then (py_getitem part ''text'') (\<lambda>t.
         and_then (py_strip t) (\<lambda>s. Inr (''text'', s)))
       else
         and_then (py_contains ''function_call'' part) (\<lambda>has_call.
           if has_call then
             and_then (py_getitem part ''function_call'') (\<lambda>func_call.
             and_then (py_get func_call ''name'' (PStr ''unknown'')) (\<lambda>name.
             and_then (py_get func_call ''args'' (PDict [])) (\<lambda>args.
               Inr (''function_call'', PDict [(''name'', name), (''args'', args)]))))
           else Inr (''other'', part)))"

text \<open>The inner loop, with \<open>response_parts\<close> as the accumulator.\<close>

fun process_parts :: "pyval list \<Rightarrow> tagged list \<Rightarrow> pyerror + tagged list" where
  "process_parts [] response_parts = Inr response_parts"
| "process_parts (part # rest) response_parts =
     and_then (process_part part) (\<lambda>t. process_parts rest (response_parts @ [t]))"

text \<open>The body of the outer loop: one event.\<close>

definition process_event :: "pyval \<Rightarrow> tagged list \<Rightarrow> pyerror + tagged list" where
  "process_event event response_parts =
     (if isinstance_dict event \<and> py_contains ''content'' event = Inr True then
        and_then (py_getitem event ''content'') (\<lambda>content.
        and_then (py_contains ''parts'' content) (\<lambda>has_parts.
          if has_parts then
            and_then (py_getitem content ''parts'') (\<lambda>parts.
            and_then (py_iter parts) (\<lambda>ps. process_parts ps response_parts))
          else Inr response_parts))
      else Inr response_parts)"

fun process_events :: "pyval list \<Rightarrow> tagged list \<Rightarrow> pyerror + tagged list" where
  "process_events [] response_parts = Inr response_parts"
| "process_events (event # rest) response_parts =
     and_then (process_event event response_parts) (process_events rest)"

definition process_stream_response :: "pyval list \<Rightarrow> pyerror + tagged list" where
  "process_stream_response stream_events = process_events stream_events []"

text \<open>
  \<open>display_response_parts\<close> prints; the model returns the lines printed, in order, and
  the exception that ended the run, if any. The text an f-string gives for a value is
  Python's own formatting, taken as the parameter \<open>fmt\<close>.
\<close>

fun display_loop ::
  "(pyval \<Rightarrow> string) \<Rightarrow> tagged list \<Rightarrow> string list \<Rightarrow> string list \<times> pyerror option" where
  "display_loop fmt [] printed = (printed, None)"
| "display_loop fmt ((part_type, part_content) # rest) printed =
     (if part_type = ''text'' then
        display_loop fmt rest (printed @ [''Response: '' @ fmt part_content])
      else if part_type = ''function_call'' then
        (case py_getitem part_content ''name'' of
           Inl e \<Rightarrow> (printed, Some e)
         | Inr name \<Rightarrow>
             (case py_getitem part_content ''args'' of
                Inl e \<Rightarrow> (printed @ [''Function Call: '' @ fmt name], Some e)
              | Inr args \<Rightarrow>
                  display_loop fmt rest
                    (printed @ [''Function Call: '' @ fmt name, ''  Args: '' @ fmt args])))
      else display_loop fmt rest (printed @ [''Other part: '' @ fmt part_content]))"

definition display_response_parts ::
  "(pyval \<Rightarrow> string) \<Rightarrow> tagged list \<Rightarrow> string list \<times> pyerror option" where
  "display_response_parts fmt response_parts =
     (if response_parts \<noteq> [] then display_loop fmt response_parts []
      else ([''No response received''], None))"

section \<open>agents/adk_agent.py: the two lookup tools\<close>

text \<open>\<open>str.lower()\<close> on code points below 256: A to Z and the accented capitals move by 32.\<close>

definition lower_char :: "char \<Rightarrow> char" where
  "lower_char c =
     (let n = (of_char c :: nat)
      in if (65 \<le> n \<and> n \<le> 90) \<or> (192 \<le> n \<and> n \<le> 222 \<and> n \<noteq> 215)
         then char_of (n + 32) else c)"

definition lower :: "string \<Rightarrow> string" where
  "lower s = map lower_char s"

definition mock_weather_data :: "(string \<times> string) list" where
  "mock_weather_data =
     [(''new york'', ''sunny with a temperature of 25 degrees Celsius (77 degrees Fahrenheit)''),
      (''london'', ''cloudy with a temperature of 15 degrees Celsius (59 degrees Fahrenheit)''),
      (''tokyo'', ''clear with a temperature of 28 degrees Celsius (82 degrees Fahrenheit)''),
      (''paris'', ''rainy with a temperature of 18 degrees Celsius (64 degrees Fahrenheit)''),
      (''sydney'', ''partly cloudy with a temperature of 22 degrees Celsius (72 degrees Fahrenheit)''),
      (''los angeles'', ''sunny with a temperature of 26 degrees Celsius (79 degrees Fahrenheit)''),
      (''chicago'', ''windy with a temperature of 20 degrees Celsius (68 degrees Fahrenheit)''),
      (''singapore'', ''humid with a temperature of 30 degrees Celsius (86 degrees Fahrenheit)''),
      (''dubai'', ''hot and sunny with a temperature of 35 degrees Celsius (95 degrees Fahrenheit)''),
      (''hong kong'', ''warm with a temperature of 27 degrees Celsius (81 degrees Fahrenheit)'')]"

text \<open>The dict a tool returns has string values; it is the association list of its items.\<close>

definition get_weather :: "string \<Rightarrow> (string \<times> string) list" where
  "get_weather city =
     (let city_lower = lower city
      in case map_of mock_weather_data city_lower of
           Some weather \<Rightarrow>
             [(''status'', ''success''),
              (''report'', ''The weather in '' @ city @ '' is '' @ weather @ ''.'')]
         | None \<Rightarrow>
             [(''status'', ''error''),
              (''error_message'',
               ''Weather information for '' @ [CHR 0x27] @ city @ [CHR 0x27] @ '' is not available.'')])"

definition city_timezones :: "(string \<times> string) list" where
  "city_timezones =
     [(''new york'', ''America/New_York''),
      (''london'', ''Europe/London''),
      (''tokyo'', ''Asia/Tokyo''),
      (''paris'', ''Europe/Paris''),
      (''sydney'', ''Australia/Sydney''),
      (''los angeles'', ''America/Los_Angeles''),
      (''chicago'', ''America/Chicago''),
      (''singapore'', ''Asia/Singapore''),
      (''dubai'', ''Asia/Dubai''),
      (''hong kong'', ''Asia/Hong_Kong'')]"

text \<open>
  \<open>get_current_time\<close> reads the clock: \<open>clock tz\<close> is the text that
  \<open>datetime.datetime.now(ZoneInfo(tz)).strftime('%Y-%m-%d %H:%M:%S %Z%z')\<close> gives at the
  moment of the call (the time zone database is taken to hold the ten identifiers).
\<close>

definition get_current_time :: "(string \<Rightarrow> string) \<Rightarrow> string \<Rightarrow> (string \<times> string) list" where
  "get_current_time clock city =
     (let city_lower = lower city
      in case map_of city_timezones city_lower of
           Some tz_identifier \<Rightarrow>
             (let report = ''The current time in '' @ city @ '' is '' @ clock tz_identifier
              in [(''status'', ''success''), (''report'', report)])
         | None \<Rightarrow>
             [(''status'', ''error''),
              (''error_message'',
               ''Sorry, I don'' @ [CHR 0x27] @ ''t have timezone information for '' @ city @ ''.'')])"

text \<open>
  The agent's tool list, \<open>tools=[get_weather, get_current_time]\<close>, and a call of one of
  them while the clock reads \<open>clock\<close>.
\<close>

datatype tool = Get_weather | Get_current_time

fun call_tool :: "(string \<Rightarrow> string) \<Rightarrow> tool \<Rightarrow> string \<Rightarrow> (string \<times> string) list" where
  "call_tool clock Get_weather city = get_weather city"
| "call_tool clock Get_current_time city = get_current_time clock city"

text \<open>Two readings of the clock, one second apart.\<close>

definition clock_at_noon :: "string \<Rightarrow> string" where
  "clock_at_noon tz = ''2025-06-01 12:00:00 BST+0100''"

definition clock_after_noon :: "string \<Rightarrow> string" where
  "clock_after_noon tz = ''2025-06-01 12:00:01 BST+0100''"

section \<open>The process environment and the log\<close>

text \<open>
  The six variables as \<open>os.getenv\<close> returns them after \<open>load_dotenv()\<close>:
  \<open>None\<close> for a variable that is not set.
\<close>

record environ =
  PROJECT_ID :: "string option"
  PROJECT_NUMBER :: "string option"
  LOCATION :: "string option"
  STAGING_BUCKET :: "string option"
  APP_ID :: "string option"
  ADK_DEPLOYMENT_ID :: "string option"

text \<open>Truth value of an optional string: \<open>None\<close> and the empty string are false.\<close>

fun truthy :: "string option \<Rightarrow> bool" where
  "truthy None = False"
| "truthy (Some s) = (s \<noteq> [])"

text \<open>An optional string inside an f-string.\<close>

fun fmt_opt :: "string option \<Rightarrow> string" where
  "fmt_opt None = ''None''"
| "fmt_opt (Some s) = s"

text \<open>An integer inside an f-string: its decimal digits.\<close>

fun str_nat :: "nat \<Rightarrow> string" where
  "str_nat n = (if n < 10 then [char_of (48 + n)] else str_nat (n div 10) @ [char_of (48 + n mod 10)])"

definition str_int :: "int \<Rightarrow> string" where
  "str_int i = (if i < 0 then ''-'' @ str_nat (nat (- i)) else str_nat (nat i))"

datatype level = INFO | WARNING | ERROR

type_synonym log_line = "level \<times> string"

text \<open>
  The marks U+2713 and U+2717 of the log messages lie beyond the character type; they
  stand as their UTF-8 bytes, which no operation of the model inspects.
\<close>

definition check_mark :: string where
  "check_mark = [CHR 0xE2, CHR 0x9C, CHR 0x93]"

definition ballot_x :: string where
  "ballot_x = [CHR 0xE2, CHR 0x9C, CHR 0x97]"


section \<open>invocations/invoke_adk_agent_deployed.py: the entry point\<close>

text \<open>
  The script either leaves through \<open>exit\<close> with a status or goes on to call
  \<open>test_deployed_agent\<close> on a resource name. The argument \<open>id_flag\<close> is the value
  of \<open>--id\<close> on the command line, \<open>None\<close> when the flag is not given; the model
  returns the lines printed before that point and what the script does next.
\<close>

datatype invocation = Exit_status nat | Test_deployed_agent string

definition default_resource_name :: "environ \<Rightarrow> string option" where
  "default_resource_name env =
     (if truthy (PROJECT_ID env) \<and> truthy (LOCATION env) \<and> truthy (ADK_DEPLOYMENT_ID env) then
        Some (''projects/'' @ fmt_opt (PROJECT_ID env) @ ''/locations/'' @ fmt_opt (LOCATION env)
              @ ''/reasoningEngines/'' @ fmt_opt (ADK_DEPLOYMENT_ID env))
      else None)"

text \<open>\<open>parser.parse_args()\<close>: the flag's value when it is given, the default otherwise.\<close>

definition parse_id :: "string option \<Rightarrow> string option \<Rightarrow> string option" where
  "parse_id default_value id_flag = (case id_flag of Some v \<Rightarrow> Some v | None \<Rightarrow> default_value)"

definition no_resource_id :: "string list \<times> invocation" where
  "no_resource_id =
     ([''Error: No agent resource ID provided.'',
       ''Either provide --id argument or ensure ADK_DEPLOYMENT_ID is set in .env file''],
      Exit_status 1)"

definition invoke_main :: "environ \<Rightarrow> string option \<Rightarrow> string list \<times> invocation" where
  "invoke_main env id_flag =
     (case parse_id (default_resource_name env) id_flag of
        None \<Rightarrow> no_resource_id
      | Some args_id \<Rightarrow>
          if args_id = [] then no_resource_id else ([], Test_deployed_agent args_id))"

section \<open>deployments/deploy_to_agentspace.py\<close>

text \<open>
  What the outside world did in one run is an argument of the model: the outcome of the
  \<open>gcloud\<close> subprocess, of the default-credentials refresh, and of the POST (the
  payload and the headers go out with the request and are not read again). An exception
  carries the text that \<open>{e}\<close> prints. Exceptions of the subprocess call other than the
  two the source catches are not modelled. The arguments of \<open>deploy_to_agentspace\<close> are
  optional strings, since \<open>main\<close> passes what \<open>os.getenv\<close> returned.
\<close>

datatype gcloud_run =
    Gcloud_stdout string
  | Gcloud_called_process_error string
  | Gcloud_file_not_found

datatype adc_refresh =
    Adc_token "string option"
  | Adc_exception string

text \<open>
  A response: its status code, its text, and what \<open>response.json()\<close> gives, which is
  the decoded value or a \<open>requests.exceptions.JSONDecodeError\<close> (a
  \<open>RequestException\<close>) with its text.
\<close>

record response =
  status_code :: int
  body_text :: string
  json :: "string + pyval"

datatype post_result =
    Post_timeout
  | Post_request_exception string
  | Post_other_exception string
  | Post_response response

text \<open>Python's own renderings, taken as parameters.\<close>

record rendering =
  json_dumps :: "pyval \<Rightarrow> string"
  format_value :: "pyval \<Rightarrow> string"
  exception_text :: "pyerror \<Rightarrow> string"

definition adc_fallback :: "adc_refresh \<Rightarrow> log_line list \<Rightarrow> log_line list \<times> string option" where
  "adc_fallback adc logged =
     (case adc of
        Adc_token token \<Rightarrow>
          if truthy token then
            (logged @ [(INFO, ''Successfully obtained access token via ADC'')], token)
          else (logged, None)
      | Adc_exception e \<Rightarrow>
          (logged @ [(ERROR, ''Failed to get access token via ADC: '' @ e)], None))"

definition get_access_token :: "gcloud_run \<Rightarrow> adc_refresh \<Rightarrow> log_line list \<times> string option" where
  "get_access_token gcloud adc =
     (case gcloud of
        Gcloud_stdout out \<Rightarrow>
          (let token = strip out
           in if token \<noteq> [] then ([(INFO, ''Successfully obtained access token'')], Some token)
              else adc_fallback adc [])
      | Gcloud_called_process_error e \<Rightarrow>
          adc_fallback adc [(ERROR, ''Failed to get access token via gcloud: '' @ e)]
      | Gcloud_file_not_found \<Rightarrow>
          adc_fallback adc [(ERROR, ''gcloud CLI not found. Please install Google Cloud SDK.'')])"

definition endpoint :: "string option \<Rightarrow> string option \<Rightarrow> string" where
  "endpoint project_id app_id =
     ''https://eu-discoveryengine.googleapis.com'' @ ''/v1alpha/projects/'' @ fmt_opt project_id
     @ ''/locations/eu/'' @ ''collections/default_collection/engines/'' @ fmt_opt app_id @ ''/''
     @ ''assistants/default_assistant/agents''"

text \<open>The remediation hints of the failure branch, by status code.\<close>

definition guidance :: "string option \<Rightarrow> string option \<Rightarrow> int \<Rightarrow> log_line list" where
  "guidance project_id app_id code =
     (if code = 404 then
        [(ERROR, ''The app or endpoint was not found. Please check:''),
         (ERROR, ''- App ID is correct: '' @ fmt_opt app_id),
         (ERROR, ''- The app exists in project: '' @ fmt_opt project_id),
         (ERROR, ''- The app is in the EU location'')]
      else if code = 403 then
        [(ERROR, ''Permission denied. Please check:''),
         (ERROR, ''- You have the necessary IAM roles (Discovery Engine Admin)''),
         (ERROR, ''- The project has the Discovery Engine API enabled'')]
      else if code = 400 then
        [(ERROR, ''Bad request. Please check:''),
         (ERROR, ''- The ADK deployment exists and is accessible''),
         (ERROR, ''- The payload format is correct'')]
      else [])"

text \<open>The \<open>try\<close> block once the response has arrived, with its handlers.\<close>

definition check_response ::
  "rendering \<Rightarrow> string option \<Rightarrow> string option \<Rightarrow> response \<Rightarrow> log_line list \<times> bool" where
  "check_response rend project_id app_id resp =
     (if status_code resp = 200 \<or> status_code resp = 201 then
        (let ok = [(INFO, check_mark @ '' Successfully deployed agent to Agentspace!'')]
         in case json resp of
              Inl e \<Rightarrow> (ok @ [(ERROR, ''Request failed: '' @ e)], False)
            | Inr agent_data \<Rightarrow>
                (let shown = ok @ [(INFO, ''Response: '' @ json_dumps rend agent_data)]
                 in case py_contains ''name'' agent_data of
                      Inl e \<Rightarrow>
                        (shown @ [(ERROR, ''Unexpected error: '' @ exception_text rend e)], False)
                    | Inr False \<Rightarrow> (shown, True)
                    | Inr True \<Rightarrow>
                        (case py_getitem agent_data ''name'' of
                           Inl e \<Rightarrow>
                             (shown @ [(ERROR, ''Unexpected error: '' @ exception_text rend e)],
                              False)
                         | Inr name \<Rightarrow>
                             (shown @ [(INFO, ''Agent resource name: '' @ format_value rend name)],
                              True))))
      else
        ([(ERROR, ballot_x @ '' Deployment failed with status code: '' @ str_int (status_code resp)),
          (ERROR, ''Response: '' @ body_text resp)]
         @ guidance project_id app_id (status_code resp),
         False))"

definition deploy_to_agentspace ::
  "rendering \<Rightarrow> gcloud_run \<Rightarrow> adc_refresh \<Rightarrow> post_result \<Rightarrow>
   string option \<Rightarrow> string option \<Rightarrow> string option \<Rightarrow> string option \<Rightarrow> log_line list \<times> bool" where
  "deploy_to_agentspace rend gcloud adc post project_id app_id adk_deployment_id adk_location =
     (case get_access_token gcloud adc of (token_log, access_token) \<Rightarrow>
        if \<not> truthy access_token then
          (token_log
           @ [(ERROR, ''Unable to obtain access token. Cannot proceed with deployment.'')],
           False)
        else
          (let details =
                 [(INFO, ''Deploying agent to Agentspace...''),
                  (INFO, ''Project ID: '' @ fmt_opt project_id),
                  (INFO, ''App ID: '' @ fmt_opt app_id),
                  (INFO, ''ADK Deployment ID: '' @ fmt_opt adk_deployment_id),
                  (INFO, ''ADK Location: '' @ fmt_opt adk_location),
                  (INFO, ''Endpoint: '' @ endpoint project_id app_id)]
           in case post of
                Post_timeout \<Rightarrow>
                  (token_log @ details
                   @ [(ERROR, ''Request timed out. The deployment might still be in progress.'')],
                   False)
              | Post_request_exception e \<Rightarrow>
                  (token_log @ details @ [(ERROR, ''Request failed: '' @ e)], False)
              | Post_other_exception e \<Rightarrow>
                  (token_log @ details @ [(ERROR, ''Unexpected error: '' @ e)], False)
              | Post_response resp \<Rightarrow>
                  (case check_response rend project_id app_id resp of (checked, success) \<Rightarrow>
                     (token_log @ details @ checked, success))))"


section \<open>deployments/deploy_adk_agent.py\<close>










text \<open>
  A run of the deployment script in which only PROJECT_NUMBER is not set and the platform
  answers as it does to a correct request.
\<close>

definition env_without_project_number :: environ where
  "env_without_project_number =
     \<lparr>PROJECT_ID = Some ''demo-project'', PROJECT_NUMBER = None,
      LOCATION = Some ''europe-west1'', STAGING_BUCKET = Some ''gs://demo-bucket'',
      APP_ID = Some ''demo-app'', ADK_DEPLOYMENT_ID = Some ''1234567890''\<rparr>"


section \<open>The words of the specification about the normalizer\<close>

text \<open>
  The parts of an event, as the specification counts them: the items of
  \<open>content.parts\<close> of an event that is a mapping with a mapping \<open>content\<close> holding
  a \<open>parts\<close> field, and none for any other event. The flattened input is their
  concatenation over the stream.
\<close>

definition event_parts_spec :: "pyval \<Rightarrow> pyval list" where
  "event_parts_spec event =
     (case event of
        PDict kvs \<Rightarrow>
          (case map_of kvs ''content'' of
             Some (PDict content) \<Rightarrow>
               (case map_of content ''parts'' of
                  Some parts \<Rightarrow> (case py_iter parts of Inr ps \<Rightarrow> ps | Inl e \<Rightarrow> [])
                | None \<Rightarrow> [])
           | _ \<Rightarrow> [])
      | _ \<Rightarrow> [])"

definition flattened_parts_spec :: "pyval list \<Rightarrow> pyval list" where
  "flattened_parts_spec stream_events = concat (map event_parts_spec stream_events)"

text \<open>
  The events that the two \<open>in\<close> tests pass over: an event with no \<open>content\<close> key (an
  event that is not a mapping has none), or whose \<open>content\<close> is a mapping with no
  \<open>parts\<close> key. An event whose \<open>content\<close> is not a mapping, \<open>None\<close> say, is not
  of this kind, although it has no \<open>parts\<close> field either.
\<close>

definition without_content_or_parts_key :: "pyval \<Rightarrow> bool" where
  "without_content_or_parts_key event =
     (case event of
        PDict kvs \<Rightarrow>
          (case map_of kvs ''content'' of
             None \<Rightarrow> True
           | Some (PDict content) \<Rightarrow> map_of content ''parts'' = None
           | Some _ \<Rightarrow> False)
      | _ \<Rightarrow> True)"

text \<open>
  The shape the platform's events have: a part is a mapping whose \<open>text\<close>, when
  present, is a string, and whose \<open>function_call\<close>, when it is read, is a mapping; an
  event that has a \<open>content\<close> has a mapping there, whose \<open>parts\<close>, when present, is
  a list of such parts.
\<close>

definition shaped_part :: "pyval \<Rightarrow> bool" where
  "shaped_part part =
     (case part of
        PDict kvs \<Rightarrow>
          (case map_of kvs ''text'' of
             Some (PStr s) \<Rightarrow> True
           | Some _ \<Rightarrow> False
           | None \<Rightarrow>
               (case map_of kvs ''function_call'' of
                  Some (PDict fc) \<Rightarrow> True
                | Some _ \<Rightarrow> False
                | None \<Rightarrow> True))
      | _ \<Rightarrow> False)"

definition shaped_event :: "pyval \<Rightarrow> bool" where
  "shaped_event event =
     (case event of
        PDict kvs \<Rightarrow>
          (case map_of kvs ''content'' of
             None \<Rightarrow> True
           | Some (PDict content) \<Rightarrow>
               (case map_of content ''parts'' of
                  None \<Rightarrow> True
                | Some (PList ps) \<Rightarrow> list_all shaped_part ps
                | Some _ \<Rightarrow> False)
           | Some _ \<Rightarrow> False)
      | _ \<Rightarrow> True)"

text \<open>The example stream of the specification, and an event with a part whose text is
  \<open>None\<close>.\<close>

definition example_stream :: "pyval list" where
  "example_stream =
     [PDict [(''content'', PDict [(''parts'', PList
        [PDict [(''text'', PStr '' hi '')],
         PDict [(''function_call'',
                 PDict [(''name'', PStr ''get_weather''),
                        (''args'', PDict [(''city'', PStr ''Paris'')])])]])])]]"

definition text_none_stream :: "pyval list" where
  "text_none_stream =
     [PDict [(''content'', PDict [(''parts'', PList [PDict [(''text'', PNone)]])])]]"

text \<open>
  Four more streams of one or two events: a part that is the number 5, a part whose
  \<open>function_call\<close> is \<open>None\<close>, an event with a text part followed by an event
  whose \<open>parts\<close> is \<open>None\<close>, and an event whose \<open>content\<close> is \<open>None\<close>.
\<close>

definition number_part_stream :: "pyval list" where
  "number_part_stream = [PDict [(''content'', PDict [(''parts'', PList [PInt 5])])]]"

definition call_none_stream :: "pyval list" where
  "call_none_stream =
     [PDict [(''content'', PDict [(''parts'', PList [PDict [(''function_call'', PNone)]])])]]"

definition parts_none_stream :: "pyval list" where
  "parts_none_stream =
     [PDict [(''content'', PDict [(''parts'', PList [PDict [(''text'', PStr '' hi '')]])])],
      PDict [(''content'', PDict [(''parts'', PNone)])]]"

definition content_none_stream :: "pyval list" where
  "content_none_stream = [PDict [(''content'', PNone)]]"

section \<open>Runs of the two deployment scripts used below\<close>

text \<open>
  A response with status 200 and an empty body, a rendering that prints three dots for
  every value, the output of \<open>uv export\<close> with one requirement, and a test query that
  was answered with three events.
\<close>

definition response_ok_without_json :: response where
  "response_ok_without_json =
     \<lparr>status_code = 200, body_text = [],
      json = Inl ''Expecting value: line 1 column 1 (char 0)''\<rparr>"




section \<open>Properties of the normalizer\<close>

subsection \<open>What a run that returns has appended\<close>

lemma and_then_Inr [simp]: "and_then (Inr v) f = f v"
  by (simp add: and_then_def)

lemma and_then_Inl [simp]: "and_then (Inl e) f = Inl e"
  by (simp add: and_then_def)

lemma and_then_returns: "and_then r f = Inr y \<longleftrightarrow> (\<exists>v. r = Inr v \<and> f v = Inr y)"
  by (cases r) simp_all

lemma process_part_dict:
  "process_part (PDict kvs) =
     (case map_of kvs ''text'' of
        Some t \<Rightarrow> and_then (py_strip t) (\<lambda>s. Inr (''text'', s))
      | None \<Rightarrow>
          (case map_of kvs ''function_call'' of
             Some func_call \<Rightarrow>
               and_then (py_get func_call ''name'' (PStr ''unknown'')) (\<lambda>name.
               and_then (py_get func_call ''args'' (PDict [])) (\<lambda>args.
                 Inr (''function_call'', PDict [(''name'', name), (''args'', args)])))
           | None \<Rightarrow> Inr (''other'', PDict kvs)))"
  by (simp add: process_part_def split: option.splits)

lemma process_parts_returns:
  "process_parts ps acc = Inr out \<Longrightarrow>
     \<exists>ts. out = acc @ ts \<and> list_all2 (\<lambda>p t. process_part p = Inr t) ps ts"
proof (induction ps arbitrary: acc)
  case Nil
  then show ?case by simp
next
  case (Cons p ps)
  from Cons.prems obtain t where t: "process_part p = Inr t"
    and rest: "process_parts ps (acc @ [t]) = Inr out"
    by (auto simp: and_then_returns)
  from Cons.IH [OF rest] obtain ts where "out = (acc @ [t]) @ ts"
    and "list_all2 (\<lambda>p t. process_part p = Inr t) ps ts" by blast
  with t have "out = acc @ (t # ts) \<and> list_all2 (\<lambda>p t. process_part p = Inr t) (p # ps) (t # ts)"
    by simp
  then show ?case by blast
qed

lemma process_event_returns:
  assumes "process_event event acc = Inr out"
  shows "\<exists>ts. out = acc @ ts \<and> list_all2 (\<lambda>p t. process_part p = Inr t) (event_parts_spec event) ts"
proof (cases event)
  case (PDict kvs)
  show ?thesis
  proof (cases "map_of kvs ''content''")
    case None
    with PDict assms show ?thesis
      by (simp add: process_event_def event_parts_spec_def)
  next
    case (Some content)
    show ?thesis
    proof (cases content)
      case (PDict c)
      show ?thesis
      proof (cases "map_of c ''parts''")
        case None
        with \<open>event = PDict kvs\<close> Some PDict assms show ?thesis
          by (simp add: process_event_def event_parts_spec_def)
      next
        case (Some parts)
        with \<open>event = PDict kvs\<close> \<open>map_of kvs ''content'' = Some content\<close> PDict assms
        obtain ps where ps: "py_iter parts = Inr ps" and run: "process_parts ps acc = Inr out"
          by (auto simp: process_event_def and_then_returns)
        from ps Some \<open>event = PDict kvs\<close> \<open>map_of kvs ''content'' = Some content\<close> PDict
        have "event_parts_spec event = ps"
          by (simp add: event_parts_spec_def)
        with process_parts_returns [OF run] show ?thesis by simp
      qed
    qed (use \<open>event = PDict kvs\<close> Some assms in
          \<open>auto simp: process_event_def event_parts_spec_def and_then_returns split: if_splits\<close>)
  qed
qed (use assms in \<open>simp_all add: process_event_def event_parts_spec_def\<close>)

lemma process_events_returns:
  "process_events es acc = Inr out \<Longrightarrow>
     \<exists>ts. out = acc @ ts \<and> list_all2 (\<lambda>p t. process_part p = Inr t) (flattened_parts_spec es) ts"
proof (induction es arbitrary: acc)
  case Nil
  then show ?case by (simp add: flattened_parts_spec_def)
next
  case (Cons e es)
  from Cons.prems obtain mid where e: "process_event e acc = Inr mid"
    and rest: "process_events es mid = Inr out"
    by (auto simp: and_then_returns)
  from process_event_returns [OF e] obtain ts1 where mid: "mid = acc @ ts1"
    and l1: "list_all2 (\<lambda>p t. process_part p = Inr t) (event_parts_spec e) ts1" by blast
  from Cons.IH [OF rest] obtain ts2 where out: "out = mid @ ts2"
    and l2: "list_all2 (\<lambda>p t. process_part p = Inr t) (flattened_parts_spec es) ts2" by blast
  from l1 l2 have "list_all2 (\<lambda>p t. process_part p = Inr t) (flattened_parts_spec (e # es)) (ts1 @ ts2)"
    by (simp add: flattened_parts_spec_def list_all2_appendI)
  with mid out show ?case by auto
qed

lemma process_stream_response_returns:
  "process_stream_response es = Inr out \<Longrightarrow>
     list_all2 (\<lambda>p t. process_part p = Inr t) (flattened_parts_spec es) out"
  using process_events_returns [of es "[]" out] by (simp add: process_stream_response_def)

subsection \<open>Streams of the platform's shape\<close>

lemma shaped_part_returns:
  assumes "shaped_part p"
  shows "\<exists>t. process_part p = Inr t"
proof (cases p)
  case (PDict kvs)
  show ?thesis
  proof (cases "map_of kvs ''text''")
    case (Some t)
    with assms PDict obtain s where "t = PStr s"
      by (cases t) (simp_all add: shaped_part_def)
    with Some PDict show ?thesis by (simp add: process_part_dict)
  next
    case None
    show ?thesis
    proof (cases "map_of kvs ''function_call''")
      case (Some f)
      with assms PDict None obtain fc where "f = PDict fc"
        by (cases f) (simp_all add: shaped_part_def)
      with Some None PDict show ?thesis by (simp add: process_part_dict)
    next
      case no_call: None
      with None PDict show ?thesis by (simp add: process_part_dict)
    qed
  qed
qed (use assms in \<open>simp_all add: shaped_part_def\<close>)

lemma shaped_parts_return:
  "list_all shaped_part ps \<Longrightarrow> \<exists>out. process_parts ps acc = Inr out"
proof (induction ps arbitrary: acc)
  case Nil
  then show ?case by simp
next
  case (Cons p ps)
  from Cons.prems have "shaped_part p" and rest: "list_all shaped_part ps"
    by simp_all
  then obtain t where "process_part p = Inr t"
    using shaped_part_returns by blast
  with Cons.IH [OF rest] show ?case by simp
qed

lemma shaped_event_returns:
  assumes "shaped_event e"
  shows "\<exists>out. process_event e acc = Inr out"
proof (cases e)
  case (PDict kvs)
  show ?thesis
  proof (cases "map_of kvs ''content''")
    case None
    with PDict show ?thesis by (simp add: process_event_def)
  next
    case (Some content)
    with assms PDict obtain c where c: "content = PDict c"
      by (cases content) (simp_all add: shaped_event_def)
    show ?thesis
    proof (cases "map_of c ''parts''")
      case None
      with PDict Some c show ?thesis by (simp add: process_event_def)
    next
      case parts: (Some parts)
      with assms PDict Some c obtain ps where ps: "parts = PList ps" "list_all shaped_part ps"
        by (cases parts) (simp_all add: shaped_event_def)
      with PDict Some c parts shaped_parts_return [of ps acc] show ?thesis
        by (simp add: process_event_def)
    qed
  qed
qed (simp_all add: process_event_def)

lemma shaped_events_return:
  "list_all shaped_event es \<Longrightarrow> \<exists>out. process_events es acc = Inr out"
proof (induction es arbitrary: acc)
  case Nil
  then show ?case by simp
next
  case (Cons e es)
  from Cons.prems have "shaped_event e" and rest: "list_all shaped_event es"
    by simp_all
  then obtain mid where "process_event e acc = Inr mid"
    using shaped_event_returns by blast
  with Cons.IH [OF rest] show ?case by simp
qed

lemma shaped_event_parts:
  assumes "shaped_event e"
  shows "list_all shaped_part (event_parts_spec e)"
proof (cases e)
  case (PDict kvs)
  show ?thesis
  proof (cases "map_of kvs ''content''")
    case None
    with PDict show ?thesis by (simp add: event_parts_spec_def)
  next
    case (Some content)
    with assms PDict obtain c where c: "content = PDict c"
      by (cases content) (simp_all add: shaped_event_def)
    show ?thesis
    proof (cases "map_of c ''parts''")
      case None
      with PDict Some c show ?thesis by (simp add: event_parts_spec_def)
    next
      case parts: (Some parts)
      with assms PDict Some c obtain ps where "parts = PList ps" "list_all shaped_part ps"
        by (cases parts) (simp_all add: shaped_event_def)
      with PDict Some c parts show ?thesis by (simp add: event_parts_spec_def)
    qed
  qed
qed (simp_all add: event_parts_spec_def)

lemma shaped_flattened_parts:
  "list_all shaped_event es \<Longrightarrow> list_all shaped_part (flattened_parts_spec es)"
  by (induction es) (simp_all add: flattened_parts_spec_def shaped_event_parts)

lemma shaped_stream_run:
  assumes "list_all shaped_event es"
  shows "\<exists>out. process_stream_response es = Inr out \<and>
           list_all2 (\<lambda>p t. process_part p = Inr t) (flattened_parts_spec es) out"
proof -
  from shaped_events_return [OF assms] obtain out
    where out: "process_stream_response es = Inr out"
    by (auto simp: process_stream_response_def)
  with process_stream_response_returns [OF out] show ?thesis by blast
qed

lemma shaped_part_tag:
  assumes "shaped_part p" and "process_part p = Inr tuple"
  shows "\<exists>entries. p = PDict entries \<and>
           (case map_of entries ''text'' of
              Some t \<Rightarrow> \<exists>s. t = PStr s \<and> tuple = (''text'', PStr (strip s))
            | None \<Rightarrow>
                (case map_of entries ''function_call'' of
                   Some f \<Rightarrow>
                     \<exists>func_call. f = PDict func_call \<and>
                       tuple =
                         (''function_call'',
                          PDict [(''name'', case map_of func_call ''name'' of
                                              None \<Rightarrow> PStr ''unknown'' | Some name \<Rightarrow> name),
                                 (''args'', case map_of func_call ''args'' of
                                              None \<Rightarrow> PDict [] | Some args \<Rightarrow> args)])
                 | None \<Rightarrow> tuple = (''other'', PDict entries)))"
proof (cases p)
  case (PDict entries)
  show ?thesis
  proof (cases "map_of entries ''text''")
    case (Some t)
    with assms PDict show ?thesis
      by (cases t) (auto simp: process_part_dict)
  next
    case None
    show ?thesis
    proof (cases "map_of entries ''function_call''")
      case (Some f)
      with None assms PDict show ?thesis
        by (cases f) (auto simp: process_part_dict)
    next
      case no_call: None
      with None assms PDict show ?thesis by (simp add: process_part_dict)
    qed
  qed
qed (use assms in \<open>simp_all add: shaped_part_def\<close>)

subsection \<open>Classification of the parts\<close>

text \<open>
  Claim C1 does not hold for every part: a part that is the number 5 has neither key, and
  \<open>"text" in part\<close> raises TypeError where the claim has \<open>("other", part)\<close>; a part
  whose \<open>function_call\<close> is \<open>None\<close> makes \<open>func_call.get\<close> raise AttributeError
  where the claim has a \<open>function_call\<close> tuple. In both runs the exception leaves
  \<open>process_stream_response\<close> and no part is tagged.
\<close>

theorem parts_not_classified:
  "process_stream_response number_part_stream = Inl TypeError \<and>
   process_stream_response call_none_stream = Inl AttributeError"
  by code_simp

text \<open>
  Claim C1, amended. On a stream of events of the platform's shape (see
  \<open>shaped_event\<close>) \<open>process_stream_response\<close> returns, and for every n the n-th part
  of the flattened input is a mapping that the n-th tuple classifies: with a \<open>text\<close>
  key the tuple is \<open>("text", s)\<close>, the text stripped of surrounding whitespace; else,
  with a \<open>function_call\<close> key, the tuple is
  \<open>("function_call", {"name": ..., "args": ...})\<close> with \<open>"unknown"\<close> for a missing
  name and the empty mapping for missing args; else the tuple is \<open>("other", part)\<close> with
  the part as it came.
\<close>

theorem part_classification:
  assumes "list_all shaped_event stream_events"
  shows "\<exists>response_parts.
           process_stream_response stream_events = Inr response_parts \<and>
           length response_parts = length (flattened_parts_spec stream_events) \<and>
           (\<forall>n < length response_parts.
              \<exists>entries. flattened_parts_spec stream_events ! n = PDict entries \<and>
                (case map_of entries ''text'' of
                   Some t \<Rightarrow> \<exists>s. t = PStr s \<and> response_parts ! n = (''text'', PStr (strip s))
                 | None \<Rightarrow>
                     (case map_of entries ''function_call'' of
                        Some f \<Rightarrow>
                          \<exists>func_call. f = PDict func_call \<and>
                            response_parts ! n =
                              (''function_call'',
                               PDict [(''name'', case map_of func_call ''name'' of
                                                   None \<Rightarrow> PStr ''unknown'' | Some name \<Rightarrow> name),
                                      (''args'', case map_of func_call ''args'' of
                                                   None \<Rightarrow> PDict [] | Some args \<Rightarrow> args)])
                      | None \<Rightarrow> response_parts ! n = (''other'', PDict entries))))"
proof -
  from shaped_stream_run [OF assms] obtain out
    where out: "process_stream_response stream_events = Inr out"
      and rel: "list_all2 (\<lambda>p t. process_part p = Inr t) (flattened_parts_spec stream_events) out"
    by blast
  from rel have len: "length out = length (flattened_parts_spec stream_events)"
    by (simp add: list_all2_lengthD)
  have "\<exists>entries. flattened_parts_spec stream_events ! n = PDict entries \<and>
                (case map_of entries ''text'' of
                   Some t \<Rightarrow> \<exists>s. t = PStr s \<and> out ! n = (''text'', PStr (strip s))
                 | None \<Rightarrow>
                     (case map_of entries ''function_call'' of
                        Some f \<Rightarrow>
                          \<exists>func_call. f = PDict func_call \<and>
                            out ! n =
                              (''function_call'',
                               PDict [(''name'', case map_of func_call ''name'' of
                                                   None \<Rightarrow> PStr ''unknown'' | Some name \<Rightarrow> name),
                                      (''args'', case map_of func_call ''args'' of
                                                   None \<Rightarrow> PDict [] | Some args \<Rightarrow> args)])
                      | None \<Rightarrow> out ! n = (''other'', PDict entries)))"
    if n: "n < length out" for n
  proof -
    from rel n have run: "process_part (flattened_parts_spec stream_events ! n) = Inr (out ! n)"
      by (simp add: list_all2_conv_all_nth)
    from shaped_flattened_parts [OF assms] n len
    have "shaped_part (flattened_parts_spec stream_events ! n)"
      by (simp add: list_all_length)
    from shaped_part_tag [OF this run] show ?thesis .
  qed
  with out len show ?thesis by blast
qed

text \<open>
  Claim C1, amended, at the example stream of the specification: the run returns
  \<open>("text", "hi")\<close> and the \<open>get_weather\<close> call with its args.
\<close>

theorem part_classification_witness:
  "list_all shaped_event example_stream \<and>
   (\<exists>response_parts.
      process_stream_response example_stream = Inr response_parts \<and>
      length response_parts = 2 \<and>
      response_parts ! 0 = (''text'', PStr ''hi'') \<and>
      response_parts ! 1 =
        (''function_call'',
         PDict [(''name'', PStr ''get_weather''), (''args'', PDict [(''city'', PStr ''Paris'')])]))"
proof -
  have shaped: "list_all shaped_event example_stream"
    by code_simp
  have parts: "flattened_parts_spec example_stream =
     [PDict [(''text'', PStr '' hi '')],
      PDict [(''function_call'',
              PDict [(''name'', PStr ''get_weather''),
                     (''args'', PDict [(''city'', PStr ''Paris'')])])]]"
    by code_simp
  have hi: "strip '' hi '' = ''hi''"
    by code_simp
  from part_classification [OF shaped] obtain response_parts
    where run: "process_stream_response example_stream = Inr response_parts"
      and len: "length response_parts = length (flattened_parts_spec example_stream)"
      and tags: "\<forall>n < length response_parts.
              \<exists>entries. flattened_parts_spec example_stream ! n = PDict entries \<and>
                (case map_of entries ''text'' of
                   Some t \<Rightarrow> \<exists>s. t = PStr s \<and> response_parts ! n = (''text'', PStr (strip s))
                 | None \<Rightarrow>
                     (case map_of entries ''function_call'' of
                        Some f \<Rightarrow>
                          \<exists>func_call. f = PDict func_call \<and>
                            response_parts ! n =
                              (''function_call'',
                               PDict [(''name'', case map_of func_call ''name'' of
                                                   None \<Rightarrow> PStr ''unknown'' | Some name \<Rightarrow> name),
                                      (''args'', case map_of func_call ''args'' of
                                                   None \<Rightarrow> PDict [] | Some args \<Rightarrow> args)])
                      | None \<Rightarrow> response_parts ! n = (''other'', PDict entries)))"
    by blast
  from len parts have two: "length response_parts = 2" by simp
  from tags two parts have first: "response_parts ! 0 = (''text'', PStr (strip '' hi ''))"
    by (auto dest!: spec [of _ 0])
  from tags two parts have second: "response_parts ! 1 =
        (''function_call'',
         PDict [(''name'', PStr ''get_weather''), (''args'', PDict [(''city'', PStr ''Paris'')])])"
    by (auto dest!: spec [of _ 1])
  from shaped run two first second hi show ?thesis by simp
qed

subsection \<open>Length and order of the output\<close>

text \<open>
  Claim C2 does not hold for every event sequence: when the second event has
  \<open>None\<close> as its \<open>parts\<close>, the loop over it raises TypeError, and no list is
  returned although the flattened input has one part.
\<close>

theorem parts_none_raises:
  "process_stream_response parts_none_stream = Inl TypeError \<and>
   length (flattened_parts_spec parts_none_stream) = 1"
  by code_simp

text \<open>
  Claim C2, amended. On a stream of events of the platform's shape
  \<open>process_stream_response\<close> returns a list that has one tuple for each part of the
  flattened input (the parts of the events that have a \<open>content\<close> with a
  \<open>parts\<close> field, in order; other events add none), and the n-th tuple is the one the
  loop body makes of the n-th part.
\<close>

theorem output_follows_flattened_input:
  assumes "list_all shaped_event stream_events"
  shows "\<exists>response_parts.
           process_stream_response stream_events = Inr response_parts \<and>
           length response_parts = length (flattened_parts_spec stream_events) \<and>
           (\<forall>n < length response_parts.
              process_part (flattened_parts_spec stream_events ! n) = Inr (response_parts ! n))"
proof -
  from shaped_stream_run [OF assms] obtain out
    where "process_stream_response stream_events = Inr out"
      and "list_all2 (\<lambda>p t. process_part p = Inr t) (flattened_parts_spec stream_events) out"
    by blast
  then show ?thesis
    by (auto simp: list_all2_conv_all_nth)
qed

text \<open>
  Claim C2, amended, at the example stream taken twice: four parts, four tuples, none
  merged.
\<close>

theorem output_follows_flattened_input_witness:
  "list_all shaped_event (example_stream @ example_stream) \<and>
   length (flattened_parts_spec (example_stream @ example_stream)) = 4 \<and>
   (\<exists>response_parts.
      process_stream_response (example_stream @ example_stream) = Inr response_parts \<and>
      length response_parts = 4)"
proof -
  have shaped: "list_all shaped_event (example_stream @ example_stream)"
    by code_simp
  have parts: "length (flattened_parts_spec (example_stream @ example_stream)) = 4"
    by code_simp
  from output_follows_flattened_input [OF shaped] parts shaped show ?thesis
    by auto
qed

subsection \<open>When the run returns\<close>

text \<open>
  Claim C3 does not hold for every input: a part whose \<open>text\<close> is \<open>None\<close> makes
  \<open>part["text"].strip()\<close> raise AttributeError, and the exception leaves the function.
\<close>

theorem text_none_raises: "process_stream_response text_none_stream = Inl AttributeError"
  by code_simp

text \<open>
  Claim C3, amended. On a stream of events of the platform's shape (see
  \<open>shaped_event\<close>) \<open>process_stream_response\<close> raises nothing: it returns a list, with
  one tuple for each part.
\<close>

theorem shaped_stream_never_raises:
  assumes "list_all shaped_event stream_events"
  shows "\<exists>response_parts. process_stream_response stream_events = Inr response_parts \<and>
           length response_parts = length (flattened_parts_spec stream_events)"
proof -
  from shaped_events_return [OF assms] obtain out
    where out: "process_stream_response stream_events = Inr out"
    by (auto simp: process_stream_response_def)
  from process_stream_response_returns [OF out] have "length out = length (flattened_parts_spec stream_events)"
    by (simp add: list_all2_lengthD)
  with out show ?thesis by simp
qed

text \<open>
  Claim C3, amended, at the example stream.
\<close>

theorem shaped_stream_never_raises_witness:
  "list_all shaped_event example_stream \<and>
   (\<exists>response_parts. process_stream_response example_stream = Inr response_parts \<and>
      length response_parts = length (flattened_parts_spec example_stream))"
proof -
  have shaped: "list_all shaped_event example_stream"
    by code_simp
  from shaped_stream_never_raises [OF shaped] shaped show ?thesis by simp
qed

subsection \<open>Events that are skipped\<close>

lemma process_events_append:
  "process_events (es1 @ es2) acc = and_then (process_events es1 acc) (process_events es2)"
proof (induction es1 arbitrary: acc)
  case Nil
  show ?case by simp
next
  case (Cons e es1)
  then show ?case by (cases "process_event e acc") simp_all
qed

lemma lacking_event_skipped:
  assumes "without_content_or_parts_key e"
  shows "process_event e acc = Inr acc"
proof (cases e)
  case (PDict kvs)
  show ?thesis
  proof (cases "map_of kvs ''content''")
    case None
    with PDict show ?thesis by (simp add: process_event_def)
  next
    case (Some content)
    with assms PDict obtain c where "content = PDict c" "map_of c ''parts'' = None"
      by (cases content) (simp_all add: without_content_or_parts_key_def)
    with PDict Some show ?thesis by (simp add: process_event_def)
  qed
qed (simp_all add: process_event_def)

text \<open>
  Claim C4 does not hold for every event without a \<open>parts\<close> field: when the
  \<open>content\<close> of an event is \<open>None\<close>, the test \<open>"parts" in content\<close> raises
  TypeError.
\<close>

theorem content_none_raises:
  "process_stream_response content_none_stream = Inl TypeError"
  by code_simp

text \<open>
  Claim C4, amended. An event with no \<open>content\<close> key, or whose \<open>content\<close> is a
  mapping with no \<open>parts\<close> key, raises nothing and adds nothing: alone it gives the
  empty list, and anywhere in a stream the run is the run of the stream without it.
\<close>

theorem event_without_parts_skipped:
  assumes "without_content_or_parts_key event"
  shows "process_stream_response [event] = Inr [] \<and>
         process_stream_response (before @ event # after) = process_stream_response (before @ after)"
proof -
  have one: "process_stream_response [event] = Inr []"
    using assms by (simp add: process_stream_response_def lacking_event_skipped)
  have "process_events (before @ event # after) [] = process_events (before @ after) []"
    unfolding process_events_append
    by (cases "process_events before []") (simp_all add: assms lacking_event_skipped)
  with one show ?thesis by (simp add: process_stream_response_def)
qed

text \<open>
  Claim C4, amended, at an event without \<open>content\<close> placed between two copies of the
  example stream, and at an event whose \<open>content\<close> has no \<open>parts\<close>.
\<close>

theorem event_without_parts_skipped_witness:
  "without_content_or_parts_key (PDict [(''author'', PStr ''model'')]) \<and>
   without_content_or_parts_key (PDict [(''content'', PDict [(''role'', PStr ''model'')])]) \<and>
   process_stream_response [PDict [(''content'', PDict [(''role'', PStr ''model'')])]] = Inr [] \<and>
   process_stream_response (example_stream @ PDict [(''author'', PStr ''model'')] # example_stream) =
     process_stream_response (example_stream @ example_stream)"
proof -
  have a: "without_content_or_parts_key (PDict [(''author'', PStr ''model'')])"
    by code_simp
  have b: "without_content_or_parts_key (PDict [(''content'', PDict [(''role'', PStr ''model'')])])"
    by code_simp
  from event_without_parts_skipped [OF a, of example_stream example_stream]
       event_without_parts_skipped [OF b, of "[]" "[]"] a b
  show ?thesis by simp
qed

text \<open>
  Claim C5. The empty stream gives the empty list, and \<open>display_response_parts\<close> on
  the empty list prints the one line \<open>No response received\<close> and raises nothing.
\<close>

theorem empty_stream_no_response:
  "process_stream_response [] = Inr [] \<and>
   display_response_parts fmt [] = ([''No response received''], None)"
  by (simp add: process_stream_response_def display_response_parts_def)

section \<open>Properties of the lookup tools\<close>

lemma weather_keys:
  "map_of mock_weather_data k \<noteq> None \<longleftrightarrow>
     k \<in> {''new york'', ''london'', ''tokyo'', ''paris'', ''sydney'', ''los angeles'', ''chicago'',
          ''singapore'', ''dubai'', ''hong kong''}"
  by (simp add: mock_weather_data_def)

text \<open>
  Claim C10. \<open>get_weather\<close> returns \<open>status: success\<close> with a \<open>report\<close> when the
  lowercased city is one of the ten keys of the table, and \<open>status: error\<close> with an
  \<open>error_message\<close> otherwise; two cities with the same lowercased form get the same
  status.
\<close>

theorem get_weather_by_lowercased_city:
  "(lower city \<in> {''new york'', ''london'', ''tokyo'', ''paris'', ''sydney'', ''los angeles'',
                   ''chicago'', ''singapore'', ''dubai'', ''hong kong''} \<longrightarrow>
      (\<exists>weather. map_of mock_weather_data (lower city) = Some weather \<and>
         get_weather city =
           [(''status'', ''success''),
            (''report'', ''The weather in '' @ city @ '' is '' @ weather @ ''.'')])) \<and>
   (lower city \<notin> {''new york'', ''london'', ''tokyo'', ''paris'', ''sydney'', ''los angeles'',
                   ''chicago'', ''singapore'', ''dubai'', ''hong kong''} \<longrightarrow>
      get_weather city =
        [(''status'', ''error''),
         (''error_message'',
          ''Weather information for '' @ [CHR 0x27] @ city @ [CHR 0x27] @ '' is not available.'')]) \<and>
   (lower city = lower other \<longrightarrow>
      map_of (get_weather city) ''status'' = map_of (get_weather other) ''status'')"
proof (intro conjI impI)
  assume "lower city \<in> {''new york'', ''london'', ''tokyo'', ''paris'', ''sydney'', ''los angeles'',
                   ''chicago'', ''singapore'', ''dubai'', ''hong kong''}"
  then have "map_of mock_weather_data (lower city) \<noteq> None"
    by (simp only: weather_keys)
  then show "\<exists>weather. map_of mock_weather_data (lower city) = Some weather \<and>
         get_weather city =
           [(''status'', ''success''),
            (''report'', ''The weather in '' @ city @ '' is '' @ weather @ ''.'')]"
    by (auto simp: get_weather_def)
next
  assume "lower city \<notin> {''new york'', ''london'', ''tokyo'', ''paris'', ''sydney'', ''los angeles'',
                   ''chicago'', ''singapore'', ''dubai'', ''hong kong''}"
  then have "map_of mock_weather_data (lower city) = None"
    using weather_keys [of "lower city"] by blast
  then show "get_weather city =
        [(''status'', ''error''),
         (''error_message'',
          ''Weather information for '' @ [CHR 0x27] @ city @ [CHR 0x27] @ '' is not available.'')]"
    by (simp add: get_weather_def)
next
  assume "lower city = lower other"
  then show "map_of (get_weather city) ''status'' = map_of (get_weather other) ''status''"
    by (simp add: get_weather_def split: option.splits)
qed

text \<open>
  Claim C10, at \<open>Hong KONG\<close>, which is found, and at \<open>Paris, France\<close>, which is not.
\<close>

theorem get_weather_by_lowercased_city_witness:
  "lower ''Hong KONG'' = ''hong kong'' \<and> lower ''Paris, France'' = ''paris, france'' \<and>
   lower ''Hong KONG'' = lower ''hong kong'' \<and>
   get_weather ''Hong KONG'' =
      [(''status'', ''success''),
       (''report'', ''The weather in Hong KONG is warm with a temperature of 27 degrees Celsius (81 degrees Fahrenheit).'')] \<and>
   get_weather ''Paris, France'' =
      [(''status'', ''error''),
       (''error_message'', ''Weather information for '' @ [CHR 0x27] @ ''Paris, France'' @ [CHR 0x27] @ '' is not available.'')] \<and>
   map_of (get_weather ''Hong KONG'') ''status'' = map_of (get_weather ''hong kong'') ''status''"
proof -
  have a: "lower ''Hong KONG'' = ''hong kong''" by code_simp
  have b: "lower ''Paris, France'' = ''paris, france''" by code_simp
  have c: "lower ''hong kong'' = ''hong kong''" by code_simp
  have d: "map_of mock_weather_data ''hong kong''
             = Some ''warm with a temperature of 27 degrees Celsius (81 degrees Fahrenheit)''"
    by (simp add: mock_weather_data_def)
  note found = get_weather_by_lowercased_city [of "''Hong KONG''" "''hong kong''"]
  note missing = get_weather_by_lowercased_city [of "''Paris, France''" "''hong kong''"]
  from found a d have report: "get_weather ''Hong KONG'' =
      [(''status'', ''success''),
       (''report'', ''The weather in Hong KONG is warm with a temperature of 27 degrees Celsius (81 degrees Fahrenheit).'')]"
    by simp
  from found a c have same: "map_of (get_weather ''Hong KONG'') ''status'' = map_of (get_weather ''hong kong'') ''status''"
    by (simp only:)
  from missing b have message: "get_weather ''Paris, France'' =
      [(''status'', ''error''),
       (''error_message'', ''Weather information for '' @ [CHR 0x27] @ ''Paris, France'' @ [CHR 0x27] @ '' is not available.'')]"
    by simp
  from a b c report same message show ?thesis by (simp only:)
qed

text \<open>
  Claim C6 does not hold for \<open>get_current_time\<close>: two calls for London, one second
  apart, return different reports.
\<close>

theorem current_time_differs:
  "call_tool clock_at_noon Get_current_time ''London''
     \<noteq> call_tool clock_after_noon Get_current_time ''London''"
  by code_simp

text \<open>
  Claim C6, amended. The result of \<open>get_weather\<close> depends on the city alone. The result
  of \<open>get_current_time\<close> depends on the city alone when the lowercased city is not in the
  time zone table; when it is, two calls return the same result exactly when the clock
  reads the same in that time zone.
\<close>

theorem tool_results_determined:
  "call_tool clock Get_weather city = call_tool clock' Get_weather city \<and>
   (map_of city_timezones (lower city) = None \<longrightarrow>
      call_tool clock Get_current_time city = call_tool clock' Get_current_time city) \<and>
   (\<forall>tz. map_of city_timezones (lower city) = Some tz \<longrightarrow>
      (call_tool clock Get_current_time city = call_tool clock' Get_current_time city)
        = (clock tz = clock' tz))"
  by (simp add: get_current_time_def)

text \<open>
  Claim C6, amended, at a city outside the table and at London with the two clock
  readings.
\<close>

theorem tool_results_determined_witness:
  "map_of city_timezones (lower ''Atlantis'') = None \<and>
   call_tool clock_at_noon Get_current_time ''Atlantis''
     = call_tool clock_after_noon Get_current_time ''Atlantis'' \<and>
   map_of city_timezones (lower ''London'') = Some ''Europe/London'' \<and>
   clock_at_noon ''Europe/London'' \<noteq> clock_after_noon ''Europe/London''"
proof -
  have a: "map_of city_timezones (lower ''Atlantis'') = None" by code_simp
  have b: "map_of city_timezones (lower ''London'') = Some ''Europe/London''" by code_simp
  have c: "call_tool clock_at_noon Get_current_time ''London''
     \<noteq> call_tool clock_after_noon Get_current_time ''London''" by code_simp
  from tool_results_determined [of clock_at_noon "''Atlantis''" clock_after_noon]
       tool_results_determined [of clock_at_noon "''London''" clock_after_noon] a b c
  show ?thesis by simp
qed

section \<open>Properties of the scripts\<close>

text \<open>
  Claim C7. A non-empty value of \<open>--id\<close> is the resource name the script tests,
  whatever the environment holds; without the flag the name is built from PROJECT_ID,
  LOCATION and ADK_DEPLOYMENT_ID when the three are set and not empty; without the flag and
  without one of the three the script prints its two-line message and exits with status 1.
\<close>

theorem id_flag_overrides_environment:
  "(id_flag = Some v \<and> v \<noteq> [] \<longrightarrow> invoke_main env id_flag = ([], Test_deployed_agent v)) \<and>
   (id_flag = None \<and> PROJECT_ID env = Some p \<and> p \<noteq> [] \<and> LOCATION env = Some l \<and> l \<noteq> [] \<and>
    ADK_DEPLOYMENT_ID env = Some d \<and> d \<noteq> [] \<longrightarrow>
      invoke_main env id_flag =
        ([], Test_deployed_agent (''projects/'' @ p @ ''/locations/'' @ l @ ''/reasoningEngines/'' @ d))) \<and>
   (id_flag = None \<and>
    \<not> (truthy (PROJECT_ID env) \<and> truthy (LOCATION env) \<and> truthy (ADK_DEPLOYMENT_ID env)) \<longrightarrow>
      invoke_main env id_flag =
        ([''Error: No agent resource ID provided.'',
          ''Either provide --id argument or ensure ADK_DEPLOYMENT_ID is set in .env file''],
         Exit_status 1))"
  by (auto simp: invoke_main_def parse_id_def default_resource_name_def no_resource_id_def)

text \<open>
  Claim C7, at a flag given, at the full environment without the flag, and at an
  environment without ADK_DEPLOYMENT_ID.
\<close>

theorem id_flag_overrides_environment_witness:
  "invoke_main env_without_project_number (Some ''projects/p/locations/l/reasoningEngines/7'')
     = ([], Test_deployed_agent ''projects/p/locations/l/reasoningEngines/7'') \<and>
   invoke_main env_without_project_number None
     = ([], Test_deployed_agent ''projects/demo-project/locations/europe-west1/reasoningEngines/1234567890'') \<and>
   \<not> truthy (ADK_DEPLOYMENT_ID (env_without_project_number\<lparr>ADK_DEPLOYMENT_ID := None\<rparr>)) \<and>
   invoke_main (env_without_project_number\<lparr>ADK_DEPLOYMENT_ID := None\<rparr>) None
     = ([''Error: No agent resource ID provided.'',
         ''Either provide --id argument or ensure ADK_DEPLOYMENT_ID is set in .env file''],
        Exit_status 1)"
  using id_flag_overrides_environment
          [of "Some ''projects/p/locations/l/reasoningEngines/7''"
              "''projects/p/locations/l/reasoningEngines/7''" env_without_project_number]
        id_flag_overrides_environment
          [of None _ env_without_project_number "''demo-project''" "''europe-west1''" "''1234567890''"]
        id_flag_overrides_environment
          [of None _ "env_without_project_number\<lparr>ADK_DEPLOYMENT_ID := None\<rparr>"]
  by (simp add: env_without_project_number_def)

subsection \<open>deploy_to_agentspace\<close>

text \<open>
  Claim C8, at a response with status 200 and an empty body: the function has logged
  the success line, \<open>response.json()\<close> raises inside the \<open>try\<close> block, and the
  function returns \<open>False\<close>.
\<close>

theorem status_200_reported_as_failure:
  "snd (deploy_to_agentspace rend (Gcloud_stdout ''ya29.token'') adc
          (Post_response response_ok_without_json)
          project_id app_id adk_deployment_id adk_location) = False \<and>
   (INFO, check_mark @ '' Successfully deployed agent to Agentspace!'')
     \<in> set (fst (deploy_to_agentspace rend (Gcloud_stdout ''ya29.token'') adc
                    (Post_response response_ok_without_json)
                    project_id app_id adk_deployment_id adk_location))"
proof -
  have token: "get_access_token (Gcloud_stdout ''ya29.token'') adc
                 = ([(INFO, ''Successfully obtained access token'')], Some ''ya29.token'')"
    by (simp add: get_access_token_def strip_def is_space_def)
  show ?thesis
    by (simp add: deploy_to_agentspace_def token check_response_def response_ok_without_json_def)
qed

text \<open>
  The rest of the behaviour: \<open>True\<close> is returned only for status 200 or 201, and is
  returned for these when the body is a JSON object; every other status returns
  \<open>False\<close> after the two failure lines and the hints of its code; the hints of 400, 403
  and 404 differ from one another, and no other code has any.
\<close>

lemma check_response_success_status:
  "snd (check_response rend project_id app_id resp) \<Longrightarrow>
     status_code resp = 200 \<or> status_code resp = 201"
  by (auto simp: check_response_def split: if_splits)

lemma check_response_failure_status:
  "status_code resp \<noteq> 200 \<Longrightarrow> status_code resp \<noteq> 201 \<Longrightarrow>
     check_response rend project_id app_id resp =
       ([(ERROR, ballot_x @ '' Deployment failed with status code: '' @ str_int (status_code resp)),
         (ERROR, ''Response: '' @ body_text resp)]
        @ guidance project_id app_id (status_code resp), False)"
  by (simp add: check_response_def)

lemma check_response_json_object:
  "status_code resp = 200 \<or> status_code resp = 201 \<Longrightarrow> json resp = Inr (PDict agent_data) \<Longrightarrow>
     snd (check_response rend project_id app_id resp)"
  by (cases "map_of agent_data ''name''") (auto simp: check_response_def Let_def)

lemma deploy_to_agentspace_true_only_on_success_status:
  assumes "snd (deploy_to_agentspace rend gcloud adc post project_id app_id adk_deployment_id adk_location)"
  shows "\<exists>resp. post = Post_response resp \<and> (status_code resp = 200 \<or> status_code resp = 201)"
proof (cases post)
  case (Post_response resp)
  with assms have "snd (check_response rend project_id app_id resp)"
    by (auto simp: deploy_to_agentspace_def split: prod.splits if_splits)
  with Post_response show ?thesis
    using check_response_success_status by blast
qed (use assms in \<open>auto simp: deploy_to_agentspace_def split: prod.splits if_splits\<close>)

lemma guidance_distinct:
  "guidance project_id app_id 400 \<noteq> guidance project_id app_id 403 \<and>
   guidance project_id app_id 400 \<noteq> guidance project_id app_id 404 \<and>
   guidance project_id app_id 403 \<noteq> guidance project_id app_id 404 \<and>
   guidance project_id app_id 400 \<noteq> [] \<and> guidance project_id app_id 403 \<noteq> [] \<and>
   guidance project_id app_id 404 \<noteq> [] \<and>
   (code \<notin> {400, 403, 404} \<longrightarrow> guidance project_id app_id code = [])"
  by (simp add: guidance_def)

subsection \<open>Missing environment variables\<close>




end
